theory Spec2Isabelle
  imports Main "HOL-Library.Word"
begin

section \<open>Encryptor.h: the encryption capability\<close>

text \<open>
  \<open>Encryptor\<close> is an abstract class with four virtual operations.  An implementation is a
  record of the four operations.  \<open>encrypt\<close> and \<open>decrypt\<close> overwrite the buffer they are
  given: here they take the array (as character units) together with \<open>num_bytes\<close> and the
  flags, and return the \<open>int\<close> result code and the new content of the array.
\<close>

datatype encryption_flags =
  ACCESSIBLE_SAME_PROCESS | ACCESSIBLE_CROSS_PROCESS | ACCESSIBLE_SAME_LOGON

record 'c Encryptor =
  encryption_supported :: bool
  encrypt :: "'c list \<Rightarrow> nat \<Rightarrow> encryption_flags \<Rightarrow> int \<times> 'c list"
  decrypt :: "'c list \<Rightarrow> nat \<Rightarrow> encryption_flags \<Rightarrow> int \<times> 'c list"
  block_size :: nat

section \<open>The platform: sizes and the array allocator\<close>

text \<open>
  \<open>sizeof_Char\<close> is \<open>sizeof(Char)\<close> of the template parameter and \<open>size_t_bits\<close> the width
  of \<open>size_t\<close>.  The new-expression \<open>new Char[n]\<close> either fails, and then throws
  \<open>std::bad_alloc\<close> (\<open>new_succeeds\<close> is false), or gives an array of \<open>n\<close> units whose
  content is indeterminate: \<open>new_contents\<close> is whatever the allocator left at each index.
  It never gives the null pointer, so the tests \<open>if (!data)\<close> of \<open>ensure_capacity\<close> and
  \<open>if (!chr)\<close> of \<open>to_string\<close> never take their branch.
\<close>

record 'c platform =
  sizeof_Char :: nat
  size_t_bits :: nat
  new_succeeds :: "nat \<Rightarrow> bool"
  new_contents :: "nat \<Rightarrow> 'c"

text \<open>The array of a successful \<open>new Char[n]\<close>; \<open>None\<close> when the allocation fails.\<close>

definition new_Char :: "'c platform \<Rightarrow> nat \<Rightarrow> 'c list option" where
  "new_Char P n = (if new_succeeds P n then Some (map (new_contents P) [0..<n]) else None)"

text \<open>
  Arithmetic in \<open>size_t\<close> wraps around.  The wrap-around is written out where a value the
  capability supplies (the block size) or a product with \<open>sizeof(Char)\<close> enters.  The counters
  \<open>m_num_Char\<close> and \<open>offset\<close> stay natural numbers: they count units of an array that
  exists, so adding one to them stays below \<open>SIZE_MAX\<close>.
\<close>

definition size_t :: "'c platform \<Rightarrow> nat \<Rightarrow> nat" where
  "size_t P x = x mod 2 ^ size_t_bits P"

text \<open>The \<open>cerrno\<close> codes the class returns.\<close>

definition EPERM :: int where "EPERM = 1"
definition E2BIG :: int where "E2BIG = 7"

section \<open>SecureStringExceptions.h, and how a call can end\<close>

datatype exn =
  SecureStringEncryptorException
  | SecureStringInitializationException
  | SecureStringCapacityException nat
  | SecureStringEncryptionException int
  | std_bad_alloc

text \<open>
  A call returns a value, or an exception leaves it (with the object as the call left it), or
  an exception leaves a \<open>noexcept\<close> method and \<open>std::terminate\<close> ends the program, or the
  call has undefined behaviour: it reads or writes outside an array, goes through the null
  pointer, or divides by zero.
\<close>

datatype ('a, 's) outcome = Returns 'a | Throws exn 's | Terminates | Undefined

section \<open>SecureString.h: the object\<close>

text \<open>
  The fields of the class.  \<open>m_data\<close> is \<open>None\<close> for the null pointer and otherwise the
  content of the array it points to.  The mutex is left out: every public method holds it from
  entry to return, so a method is one atomic step.  \<open>discarded\<close> is not a field of the class:
  it records, oldest first, the content each array had at the moment \<open>discard_data\<close> passed it
  to \<open>delete[]\<close>.
\<close>

record 'c SecureString =
  m_num_Char :: nat
  m_num_Char_allocated :: nat
  m_data :: "'c list option"
  m_ro :: bool
  m_encrypted :: bool
  m_encryptor :: "'c Encryptor"
  discarded :: "'c list list"

definition Char_to_bytes :: "'c platform \<Rightarrow> nat \<Rightarrow> nat" where
  "Char_to_bytes P num_Chars = size_t P (num_Chars * sizeof_Char P)"

definition bytes_to_Chars :: "'c platform \<Rightarrow> nat \<Rightarrow> nat" where
  "bytes_to_Chars P num_bytes = num_bytes div sizeof_Char P"

text \<open>
  \<open>std::copy(src, src + n, dst)\<close>, \<open>std::fill(d, d + n, v)\<close> and \<open>d[i] = v\<close> on arrays;
  \<open>None\<close> when they would leave the array.
\<close>

definition std_copy :: "'c list \<Rightarrow> nat \<Rightarrow> 'c list \<Rightarrow> 'c list option" where
  "std_copy src n dst =
     (if n \<le> length src \<and> n \<le> length dst then Some (take n src @ drop n dst) else None)"

definition std_fill :: "'c list \<Rightarrow> nat \<Rightarrow> 'c \<Rightarrow> 'c list option" where
  "std_fill d n v = (if n \<le> length d then Some (replicate n v @ drop n d) else None)"

definition store :: "'c list \<Rightarrow> nat \<Rightarrow> 'c \<Rightarrow> 'c list option" where
  "store d i v = (if i < length d then Some (d[i := v]) else None)"

definition protect_memory :: "'c platform \<Rightarrow> 'c SecureString \<Rightarrow> int \<times> 'c SecureString" where
  "protect_memory P s =
     (case m_data s of
        None \<Rightarrow> (0, s)
      | Some d \<Rightarrow>
          if m_encrypted s then (0, s)
          else
            (case encrypt (m_encryptor s) d (Char_to_bytes P (m_num_Char_allocated s))
                    ACCESSIBLE_SAME_PROCESS of
               (ret, d') \<Rightarrow>
                 (ret, s\<lparr>m_data := Some d',
                         m_encrypted := (if ret = 0 then True else m_encrypted s)\<rparr>)))"

definition unprotect_memory :: "'c platform \<Rightarrow> 'c SecureString \<Rightarrow> int \<times> 'c SecureString" where
  "unprotect_memory P s =
     (case m_data s of
        None \<Rightarrow> (0, s)
      | Some d \<Rightarrow>
          if \<not> m_encrypted s then (0, s)
          else
            (case decrypt (m_encryptor s) d (Char_to_bytes P (m_num_Char_allocated s))
                    ACCESSIBLE_SAME_PROCESS of
               (ret, d') \<Rightarrow>
                 (ret, s\<lparr>m_data := Some d',
                         m_encrypted := (if ret = 0 then False else m_encrypted s)\<rparr>)))"

text \<open>
  \<open>((Char_to_bytes(num_Char) + required - 1) / required) * required\<close> in \<open>size_t\<close>;
  \<open>None\<close> for the division by a block size of zero.  Where the division is reached
  \<open>required\<close> is at least 1, so the sum less one is taken before it is reduced.
\<close>

definition encryptor_required_bytes ::
    "'c platform \<Rightarrow> 'c SecureString \<Rightarrow> nat \<Rightarrow> nat option" where
  "encryptor_required_bytes P s num_Char =
     (let required = size_t P (block_size (m_encryptor s)) in
      if num_Char = 0 then Some required
      else if required = 0 then None
      else Some (size_t P
                  ((size_t P (Char_to_bytes P num_Char + required - 1) div required)
                   * required)))"

text \<open>\<open>discard_data\<close>; \<open>None\<close> when the fill would leave the array.\<close>

definition discard_data :: "('c::zero) SecureString \<Rightarrow> 'c SecureString option" where
  "discard_data s =
     (case m_data s of
        None \<Rightarrow> Some s
      | Some d \<Rightarrow>
          (case std_fill d (m_num_Char s) 0 of
             None \<Rightarrow> None
           | Some z \<Rightarrow>
               Some (s\<lparr>m_data := None, m_num_Char_allocated := 0,
                       discarded := discarded s @ [z]\<rparr>)))"

text \<open>
  \<open>ensure_capacity\<close>.  A failed allocation leaves it as \<open>std::bad_alloc\<close>, the object
  untouched; after a successful one \<open>data\<close> is not null, so \<open>return ENOMEM\<close> is never
  reached and every normal return is the code 0.
\<close>

definition ensure_capacity ::
    "'c platform \<Rightarrow> ('c::zero) SecureString \<Rightarrow> nat
       \<Rightarrow> (int \<times> 'c SecureString, 'c SecureString) outcome" where
  "ensure_capacity P s num_Char =
     (case encryptor_required_bytes P s num_Char of
        None \<Rightarrow> Undefined
      | Some required \<Rightarrow>
          let exists = Char_to_bytes P (m_num_Char_allocated s) in
          if required \<le> exists then Returns (0, s)
          else
            (case new_Char P (bytes_to_Chars P required) of
               None \<Rightarrow> Throws std_bad_alloc s
             | Some fresh \<Rightarrow>
                 (case (case m_data s of
                          None \<Rightarrow> Some fresh
                        | Some d \<Rightarrow> std_copy d (m_num_Char s) fresh) of
                    None \<Rightarrow> Undefined
                  | Some data \<Rightarrow>
                      (case discard_data s of
                         None \<Rightarrow> Undefined
                       | Some s' \<Rightarrow>
                           Returns (0, s'\<lparr>m_data := Some data,
                                          m_num_Char_allocated := bytes_to_Chars P required\<rparr>)))))"

definition protected_clear ::
    "('c::zero) SecureString \<Rightarrow> (int \<times> 'c SecureString, 'c SecureString) outcome" where
  "protected_clear s =
     (if m_ro s then Returns (EPERM, s)
      else
        (case discard_data s of
           None \<Rightarrow> Undefined
         | Some s' \<Rightarrow>
             Returns (0, s'\<lparr>m_num_Char := 0, m_num_Char_allocated := 0,
                            m_encrypted := False\<rparr>)))"

subsection \<open>Constructors and destructor\<close>

text \<open>A constructor returns the object or throws; no object is left when it throws.\<close>

definition SecureString_ctor :: "'c Encryptor \<Rightarrow> ('c SecureString, unit) outcome" where
  "SecureString_ctor encryptor =
     (if \<not> encryption_supported encryptor then Throws SecureStringEncryptorException ()
      else Returns \<lparr>m_num_Char = 0, m_num_Char_allocated = 0, m_data = None, m_ro = False,
                    m_encrypted = False, m_encryptor = encryptor, discarded = []\<rparr>)"

text \<open>
  \<open>strlen\<close>/\<open>wcslen\<close>: the argument list stands for the units stored from \<open>str\<close> on, with a
  terminating zero after its last element; the length is the number of units before the first
  zero.
\<close>

definition strlen :: "('c::zero) list \<Rightarrow> nat" where
  "strlen str = length (takeWhile (\<lambda>c. c \<noteq> 0) str)"

text \<open>
  The constructor from a C string; \<open>None\<close> as the argument is the null pointer.
  \<open>std::copy\<close> of no units into the null array (block size 0, empty string) does nothing.
\<close>

definition SecureString_cstr ::
    "'c platform \<Rightarrow> 'c Encryptor \<Rightarrow> ('c::zero) list option
       \<Rightarrow> ('c SecureString, unit) outcome" where
  "SecureString_cstr P encryptor str =
     (case SecureString_ctor encryptor of
        Throws e u \<Rightarrow> Throws e ()
      | Terminates \<Rightarrow> Terminates
      | Undefined \<Rightarrow> Undefined
      | Returns s0 \<Rightarrow>
          (case str of
             None \<Rightarrow> Throws SecureStringInitializationException ()
           | Some mem \<Rightarrow>
               let s1 = s0\<lparr>m_num_Char := strlen mem\<rparr> in
               (case ensure_capacity P s1 (m_num_Char s1) of
                  Throws e t \<Rightarrow> Throws e ()
                | Terminates \<Rightarrow> Terminates
                | Undefined \<Rightarrow> Undefined
                | Returns (err, s2) \<Rightarrow>
                    if err \<noteq> 0 then Throws (SecureStringCapacityException (m_num_Char s2)) ()
                    else
                      (case (case m_data s2 of
                               None \<Rightarrow> if m_num_Char s2 = 0 then Some None else None
                             | Some d \<Rightarrow> map_option Some (std_copy mem (m_num_Char s2) d)) of
                         None \<Rightarrow> Undefined
                       | Some data \<Rightarrow>
                           (case protect_memory P (s2\<lparr>m_data := data\<rparr>) of
                              (err', s3) \<Rightarrow>
                                if err' \<noteq> 0
                                then Throws (SecureStringEncryptionException err') ()
                                else Returns s3)))))"

text \<open>The constructor from a \<open>std::basic_string\<close> passes \<open>str.c_str()\<close> on.\<close>

definition SecureString_string ::
    "'c platform \<Rightarrow> 'c Encryptor \<Rightarrow> ('c::zero) list \<Rightarrow> ('c SecureString, unit) outcome" where
  "SecureString_string P encryptor str = SecureString_cstr P encryptor (Some str)"

text \<open>The destructor; its result is the object as it is given up.\<close>

definition destructor :: "('c::zero) SecureString \<Rightarrow> ('c SecureString, 'c SecureString) outcome" where
  "destructor s =
     (case protected_clear (s\<lparr>m_ro := False\<rparr>) of
        Returns (err, s') \<Rightarrow> Returns s'
      | Throws e t \<Rightarrow> Terminates
      | Terminates \<Rightarrow> Terminates
      | Undefined \<Rightarrow> Undefined)"

subsection \<open>Public methods\<close>

definition length_ss :: "'c SecureString \<Rightarrow> nat" where
  "length_ss s = m_num_Char s"

definition size_ss :: "'c platform \<Rightarrow> 'c SecureString \<Rightarrow> nat" where
  "size_ss P s = Char_to_bytes P (m_num_Char s)"

definition make_ro :: "'c SecureString \<Rightarrow> 'c SecureString" where
  "make_ro s = s\<lparr>m_ro := False\<rparr>"

definition is_ro :: "'c SecureString \<Rightarrow> bool" where
  "is_ro s = m_ro s"

text \<open>
  \<open>append\<close> is not \<open>noexcept\<close>: \<open>std::bad_alloc\<close> from \<open>ensure_capacity\<close> leaves it, with
  the object as the unprotect step left it.
\<close>

definition append_ss ::
    "'c platform \<Rightarrow> ('c::zero) SecureString \<Rightarrow> 'c
       \<Rightarrow> (int \<times> 'c SecureString, 'c SecureString) outcome" where
  "append_ss P s ch =
     (if m_ro s then Returns (EPERM, s)
      else
        (case unprotect_memory P s of
           (err, s1) \<Rightarrow>
             if err \<noteq> 0 then Returns (err, s1)
             else
               (case ensure_capacity P s1 (m_num_Char s1 + 1) of
                  Throws e t \<Rightarrow> Throws e t
                | Terminates \<Rightarrow> Terminates
                | Undefined \<Rightarrow> Undefined
                | Returns (err', s2) \<Rightarrow>
                    if err' \<noteq> 0 then Returns (err', s2)
                    else
                      (case m_data s2 of
                         None \<Rightarrow> Undefined
                       | Some d \<Rightarrow>
                           (case store d (m_num_Char s2) ch of
                              None \<Rightarrow> Undefined
                            | Some d' \<Rightarrow>
                                Returns (protect_memory P
                                  (s2\<lparr>m_data := Some d',
                                      m_num_Char := m_num_Char s2 + 1\<rparr>)))))))"

text \<open>
  The loop of \<open>insert_at\<close>:
  \<open>for (size_t i = m_num_Char; i >= offset + 1; --i) m_data[i] = m_data[i - 1];\<close>
\<close>

fun shift_right :: "nat \<Rightarrow> nat \<Rightarrow> 'c list \<Rightarrow> 'c list option" where
  "shift_right i offset d =
     (if i \<ge> offset + 1
      then (if i < length d then shift_right (i - 1) offset (d[i := d ! (i - 1)]) else None)
      else Some d)"

declare shift_right.simps [simp del]

text \<open>
  \<open>insert_at\<close> is \<open>noexcept\<close>: an exception from \<open>ensure_capacity\<close> ends the program.  The
  code \<open>ensure_capacity\<close> returns is not looked at.
\<close>

definition insert_at ::
    "'c platform \<Rightarrow> ('c::zero) SecureString \<Rightarrow> nat \<Rightarrow> 'c
       \<Rightarrow> (int \<times> 'c SecureString, 'c SecureString) outcome" where
  "insert_at P s offset ch =
     (if m_ro s then Returns (EPERM, s)
      else if offset \<ge> m_num_Char s then Returns (E2BIG, s)
      else
        (case unprotect_memory P s of
           (err, s1) \<Rightarrow>
             if err \<noteq> 0 then Returns (err, s1)
             else
               (case ensure_capacity P s1 (m_num_Char s1 + 1) of
                  Throws e t \<Rightarrow> Terminates
                | Terminates \<Rightarrow> Terminates
                | Undefined \<Rightarrow> Undefined
                | Returns (_, s2) \<Rightarrow>
                    (case m_data s2 of
                       None \<Rightarrow> Undefined
                     | Some d \<Rightarrow>
                         (case shift_right (m_num_Char s2) offset d of
                            None \<Rightarrow> Undefined
                          | Some d1 \<Rightarrow>
                              (case store d1 offset ch of
                                 None \<Rightarrow> Undefined
                               | Some d2 \<Rightarrow>
                                   Returns (protect_memory P (s2\<lparr>m_data := Some d2\<rparr>))))))))"

definition set_at ::
    "'c platform \<Rightarrow> 'c SecureString \<Rightarrow> nat \<Rightarrow> 'c
       \<Rightarrow> (int \<times> 'c SecureString, 'c SecureString) outcome" where
  "set_at P s offset ch =
     (if m_ro s then Returns (EPERM, s)
      else if offset \<ge> m_num_Char s then Returns (E2BIG, s)
      else
        (case unprotect_memory P s of
           (err, s1) \<Rightarrow>
             if err \<noteq> 0 then Returns (err, s1)
             else
               (case m_data s1 of
                  None \<Rightarrow> Undefined
                | Some d \<Rightarrow>
                    (case store d offset ch of
                       None \<Rightarrow> Undefined
                     | Some d' \<Rightarrow> Returns (protect_memory P (s1\<lparr>m_data := Some d'\<rparr>))))))"

text \<open>
  The loop of \<open>remove_at\<close>:
  \<open>for (size_t i = offset + 1; i < m_num_Char; ++i) m_data[i - 1] = m_data[i];\<close>
\<close>

function shift_left :: "nat \<Rightarrow> nat \<Rightarrow> 'c list \<Rightarrow> 'c list option" where
  "shift_left i n d =
     (if i < n
      then (if i < length d then shift_left (i + 1) n (d[i - 1 := d ! i]) else None)
      else Some d)"
  by pat_completeness auto
termination
  by (relation "measure (\<lambda>(i, n, d). n - i)") auto

declare shift_left.simps [simp del]

definition remove_at ::
    "'c platform \<Rightarrow> ('c::zero) SecureString \<Rightarrow> nat
       \<Rightarrow> (int \<times> 'c SecureString, 'c SecureString) outcome" where
  "remove_at P s offset =
     (if m_ro s then Returns (EPERM, s)
      else if offset \<ge> m_num_Char s then Returns (E2BIG, s)
      else
        (case unprotect_memory P s of
           (err, s1) \<Rightarrow>
             if err \<noteq> 0 then Returns (err, s1)
             else
               (case m_data s1 of
                  None \<Rightarrow> Undefined
                | Some d \<Rightarrow>
                    (case shift_left (offset + 1) (m_num_Char s1) d of
                       None \<Rightarrow> Undefined
                     | Some d1 \<Rightarrow>
                         (case store d1 (m_num_Char s1 - 1) 0 of
                            None \<Rightarrow> Undefined
                          | Some d2 \<Rightarrow>
                              Returns (protect_memory P
                                (s1\<lparr>m_num_Char := m_num_Char s1 - 1,
                                    m_data := Some d2\<rparr>)))))))"

definition clear ::
    "('c::zero) SecureString \<Rightarrow> (int \<times> 'c SecureString, 'c SecureString) outcome" where
  "clear s = protected_clear s"

text \<open>
  \<open>to_string\<close>, a \<open>noexcept\<close> method: a failed allocation of the scratch array ends the
  program.  The scratch array has \<open>m_num_Char + sizeof('\0')\<close> units, and the size of a
  character literal is 1.  \<open>std::basic_string<Char> ret(chr)\<close> reads \<open>chr\<close> as a C string:
  the units before the first zero.  The storage of the returned string is taken to be
  available.
\<close>

definition to_string ::
    "'c platform \<Rightarrow> ('c::zero) SecureString
       \<Rightarrow> ('c list \<times> 'c SecureString, 'c SecureString) outcome" where
  "to_string P s =
     (case unprotect_memory P s of
        (err, s1) \<Rightarrow>
          if err \<noteq> 0 then Returns ([], s1)
          else
            (case new_Char P (m_num_Char s1 + 1) of
               None \<Rightarrow> Terminates
             | Some chr \<Rightarrow>
                 (case std_copy (case m_data s1 of None \<Rightarrow> [] | Some d \<Rightarrow> d)
                         (m_num_Char s1) chr of
                    None \<Rightarrow> Undefined
                  | Some chr1 \<Rightarrow>
                      let s2 = snd (protect_memory P s1) in
                      (case store chr1 (m_num_Char s2) 0 of
                         None \<Rightarrow> Undefined
                       | Some chr2 \<Rightarrow> Returns (takeWhile (\<lambda>c. c \<noteq> 0) chr2, s2)))))"

section \<open>What the properties are stated with\<close>

text \<open>
  A capability conforms when it reports itself supported, has a positive block size, accepts
  every buffer whose byte length is a multiple of the block size, and its \<open>decrypt\<close> gives
  back the buffer a successful \<open>encrypt\<close> was given.
\<close>

definition inverts :: "'c Encryptor \<Rightarrow> bool" where
  "inverts E \<longleftrightarrow>
     (\<forall>buf n c. encrypt E buf n ACCESSIBLE_SAME_PROCESS = (0, c)
        \<longrightarrow> decrypt E c n ACCESSIBLE_SAME_PROCESS = (0, buf))"

definition accepts_aligned :: "'c Encryptor \<Rightarrow> bool" where
  "accepts_aligned E \<longleftrightarrow>
     (\<forall>buf n. n mod block_size E = 0
        \<longrightarrow> fst (encrypt E buf n ACCESSIBLE_SAME_PROCESS) = 0)"

definition conforming :: "'c Encryptor \<Rightarrow> bool" where
  "conforming E \<longleftrightarrow>
     encryption_supported E \<and> 0 < block_size E \<and> accepts_aligned E \<and> inverts E"

text \<open>
  The platform assumptions of the round trip: a character has a positive size that divides the
  block size, and the allocator never runs out of memory.  And the size assumption: the bytes
  of \<open>n\<close> characters and one block together do not exceed \<open>SIZE_MAX + 1\<close>.
\<close>

definition platform_ok :: "'c platform \<Rightarrow> 'c Encryptor \<Rightarrow> bool" where
  "platform_ok P E \<longleftrightarrow>
     0 < sizeof_Char P \<and> sizeof_Char P dvd block_size E \<and> (\<forall>n. new_succeeds P n)"

definition fits_size_t :: "'c platform \<Rightarrow> 'c Encryptor \<Rightarrow> nat \<Rightarrow> bool" where
  "fits_size_t P E n \<longleftrightarrow> n * sizeof_Char P + block_size E \<le> 2 ^ size_t_bits P"

text \<open>Invariant 1 of the data model, on the fields.\<close>

definition encrypted_at_rest :: "'c SecureString \<Rightarrow> bool" where
  "encrypted_at_rest s \<longleftrightarrow> m_encrypted s \<or> m_data s = None"

text \<open>
  The array as the next operation finds it after its \<open>unprotect_memory\<close> step, and the part
  of it beyond the logical length.
\<close>

definition plain_data :: "'c platform \<Rightarrow> 'c SecureString \<Rightarrow> 'c list" where
  "plain_data P s = (case m_data (snd (unprotect_memory P s)) of None \<Rightarrow> [] | Some d \<Rightarrow> d)"

definition padding :: "'c platform \<Rightarrow> 'c SecureString \<Rightarrow> 'c list" where
  "padding P s = drop (m_num_Char s) (plain_data P s)"

definition padding_zero :: "'c platform \<Rightarrow> ('c::zero) SecureString \<Rightarrow> bool" where
  "padding_zero P s \<longleftrightarrow> list_all (\<lambda>c. c = 0) (padding P s)"

text \<open>The edit of a plain sequence that \<open>insert_at\<close> is compared with.\<close>

definition plain_insert_at :: "nat \<Rightarrow> 'c \<Rightarrow> 'c list \<Rightarrow> 'c list" where
  "plain_insert_at offset ch xs = take offset xs @ ch # drop offset xs"

subsection \<open>Test doubles\<close>

text \<open>
  Capabilities over \<open>char\<close> (8-bit units) in the shape of \<open>WinEncryptor\<close>: a size that is not
  a multiple of the block size is refused with \<open>EMSGSIZE\<close>, a request the primitive rejects
  with \<open>EOPNOTSUPP\<close> (the values are those of the Windows C runtime).
  \<open>shift_Encryptor\<close> adds one to every unit and \<open>decrypt\<close> subtracts it again;
  \<open>noop_Encryptor\<close> leaves the buffer as it is; \<open>rejecting_Encryptor\<close> is
  \<open>shift_Encryptor\<close> whose primitive rejects a buffer that starts with the unit \<open>0x78\<close>.
\<close>

definition EMSGSIZE :: int where "EMSGSIZE = 115"
definition EOPNOTSUPP :: int where "EOPNOTSUPP = 130"

definition shift_Encryptor :: "nat \<Rightarrow> 8 word Encryptor" where
  "shift_Encryptor bs =
     \<lparr>encryption_supported = True,
      encrypt = (\<lambda>buf num_bytes flags.
         if num_bytes mod bs \<noteq> 0 then (EMSGSIZE, buf) else (0, map (\<lambda>c. c + 1) buf)),
      decrypt = (\<lambda>buf num_bytes flags.
         if num_bytes mod bs \<noteq> 0 then (EMSGSIZE, buf) else (0, map (\<lambda>c. c - 1) buf)),
      block_size = bs\<rparr>"

definition noop_Encryptor :: "nat \<Rightarrow> 8 word Encryptor" where
  "noop_Encryptor bs =
     \<lparr>encryption_supported = True,
      encrypt = (\<lambda>buf num_bytes flags.
         if num_bytes mod bs \<noteq> 0 then (EMSGSIZE, buf) else (0, buf)),
      decrypt = (\<lambda>buf num_bytes flags.
         if num_bytes mod bs \<noteq> 0 then (EMSGSIZE, buf) else (0, buf)),
      block_size = bs\<rparr>"

definition rejecting_Encryptor :: "nat \<Rightarrow> 8 word Encryptor" where
  "rejecting_Encryptor bs =
     \<lparr>encryption_supported = True,
      encrypt = (\<lambda>buf num_bytes flags.
         if num_bytes mod bs \<noteq> 0 then (EMSGSIZE, buf)
         else if take 1 buf = [0x78] then (EOPNOTSUPP, buf)
         else (0, map (\<lambda>c. c + 1) buf)),
      decrypt = (\<lambda>buf num_bytes flags.
         if num_bytes mod bs \<noteq> 0 then (EMSGSIZE, buf) else (0, map (\<lambda>c. c - 1) buf)),
      block_size = bs\<rparr>"

text \<open>
  \<open>wide_Encryptor\<close> is \<open>shift_Encryptor\<close> over \<open>wchar_t\<close> units of 32 bits.
\<close>

definition wide_Encryptor :: "nat \<Rightarrow> 32 word Encryptor" where
  "wide_Encryptor bs =
     \<lparr>encryption_supported = True,
      encrypt = (\<lambda>buf num_bytes flags.
         if num_bytes mod bs \<noteq> 0 then (EMSGSIZE, buf) else (0, map (\<lambda>c. c + 1) buf)),
      decrypt = (\<lambda>buf num_bytes flags.
         if num_bytes mod bs \<noteq> 0 then (EMSGSIZE, buf) else (0, map (\<lambda>c. c - 1) buf)),
      block_size = bs\<rparr>"

text \<open>
  Platforms with a \<open>size_t\<close> of 64 bits.  For \<open>SecureString<char>\<close>: an allocator that
  hands out zeroed arrays, one that hands out arrays filled with \<open>0xAA\<close>, and one that has
  no memory left.  For \<open>SecureString<wchar_t>\<close> with 4-byte units: an allocator that hands
  out zeroed arrays.
\<close>

definition char_platform :: "8 word platform" where
  "char_platform =
     \<lparr>sizeof_Char = 1, size_t_bits = 64, new_succeeds = (\<lambda>n. True),
      new_contents = (\<lambda>i. 0)\<rparr>"

definition junk_platform :: "8 word platform" where
  "junk_platform =
     \<lparr>sizeof_Char = 1, size_t_bits = 64, new_succeeds = (\<lambda>n. True),
      new_contents = (\<lambda>i. 0xAA)\<rparr>"

definition nomem_platform :: "8 word platform" where
  "nomem_platform =
     \<lparr>sizeof_Char = 1, size_t_bits = 64, new_succeeds = (\<lambda>n. False),
      new_contents = (\<lambda>i. 0)\<rparr>"

definition wchar_platform :: "32 word platform" where
  "wchar_platform =
     \<lparr>sizeof_Char = 4, size_t_bits = 64, new_succeeds = (\<lambda>n. True),
      new_contents = (\<lambda>i. 0)\<rparr>"

text \<open>
  Objects the examples run on, named after their plaintext.  \<open>secure\<close> is the object with the
  given fields, writable, with an empty record of discarded arrays.
\<close>

definition secure ::
    "'c Encryptor \<Rightarrow> nat \<Rightarrow> nat \<Rightarrow> 'c list option \<Rightarrow> bool \<Rightarrow> 'c SecureString" where
  "secure E n k d enc =
     \<lparr>m_num_Char = n, m_num_Char_allocated = k, m_data = d, m_ro = False,
      m_encrypted = enc, m_encryptor = E, discarded = []\<rparr>"

definition hi :: "8 word SecureString" where
  "hi = secure (shift_Encryptor 4) 2 4 (Some [0x69, 0x6A, 1, 1]) True"

definition hi_appended :: "8 word SecureString" where
  "hi_appended = secure (shift_Encryptor 4) 3 4 (Some [0x69, 0x6A, 0x22, 1]) True"

definition hi_inserted :: "8 word SecureString" where
  "hi_inserted = secure (shift_Encryptor 4) 2 4 (Some [0x22, 0x69, 0x6A, 1]) True"

definition hi_cleared :: "8 word SecureString" where
  "hi_cleared = (secure (shift_Encryptor 4) 0 0 None False)\<lparr>discarded := [[0, 0, 1, 1]]\<rparr>"

definition empty_constructed :: "8 word SecureString" where
  "empty_constructed = secure (shift_Encryptor 4) 0 4 (Some [1, 1, 1, 1]) True"

definition abcd :: "8 word SecureString" where
  "abcd = secure (shift_Encryptor 4) 4 4 (Some [0x62, 0x63, 0x64, 0x65]) True"

definition abcd_plain :: "8 word SecureString" where
  "abcd_plain = secure (shift_Encryptor 4) 4 4 (Some [0x61, 0x62, 0x63, 0x64]) False"

definition hi_removed :: "8 word SecureString" where
  "hi_removed = secure (shift_Encryptor 4) 1 4 (Some [0x6A, 1, 1, 1]) True"

definition hi_set :: "8 word SecureString" where
  "hi_set = secure (shift_Encryptor 4) 2 4 (Some [0x22, 0x6A, 1, 1]) True"

definition h_zero :: "8 word SecureString" where
  "h_zero = secure (shift_Encryptor 4) 2 4 (Some [0x69, 1, 1, 1]) True"

definition h_zero_plain :: "8 word SecureString" where
  "h_zero_plain = secure (shift_Encryptor 4) 2 4 (Some [0x68, 0, 0, 0]) False"

definition abcd_grown :: "8 word SecureString" where
  "abcd_grown =
     (secure (shift_Encryptor 4) 4 8 (Some [0x61, 0x62, 0x63, 0x64, 0, 0, 0, 0]) False)
       \<lparr>discarded := [[0, 0, 0, 0]]\<rparr>"

definition ab :: "8 word SecureString" where
  "ab = secure (rejecting_Encryptor 4) 2 4 (Some [0x62, 0x63, 1, 1]) True"

definition xb :: "8 word SecureString" where
  "xb = secure (rejecting_Encryptor 4) 2 4 (Some [0x78, 0x62, 0, 0]) False"

definition hi_junk :: "8 word SecureString" where
  "hi_junk = secure (noop_Encryptor 4) 2 4 (Some [0x68, 0x69, 0xAA, 0xAA]) True"

definition unpopulated :: "8 word SecureString" where
  "unpopulated = secure (shift_Encryptor 4) 0 0 None False"

definition hi_plain :: "8 word SecureString" where
  "hi_plain = secure (shift_Encryptor 4) 2 4 (Some [0x68, 0x69, 0, 0]) False"

definition cd :: "8 word SecureString" where
  "cd = secure (rejecting_Encryptor 4) 2 4 (Some [0x64, 0x65, 1, 1]) True"

definition xd :: "8 word SecureString" where
  "xd = secure (rejecting_Encryptor 4) 2 4 (Some [0x78, 0x64, 0, 0]) False"

text \<open>
  \<open>sealing_Encryptor\<close> encrypts as \<open>shift_Encryptor\<close> does, and its primitive rejects every
  request to decrypt.
\<close>

definition sealing_Encryptor :: "nat \<Rightarrow> 8 word Encryptor" where
  "sealing_Encryptor bs =
     \<lparr>encryption_supported = True,
      encrypt = (\<lambda>buf num_bytes flags.
         if num_bytes mod bs \<noteq> 0 then (EMSGSIZE, buf) else (0, map (\<lambda>c. c + 1) buf)),
      decrypt = (\<lambda>buf num_bytes flags.
         if num_bytes mod bs \<noteq> 0 then (EMSGSIZE, buf) else (EOPNOTSUPP, buf)),
      block_size = bs\<rparr>"

definition hi_sealed :: "8 word SecureString" where
  "hi_sealed = secure (sealing_Encryptor 4) 2 4 (Some [0x69, 0x6A, 1, 1]) True"

text \<open>The object built from the four units \<open>'a', 0, 'b', 'c'\<close> of a \<open>std::string\<close>.\<close>

definition a_only :: "8 word SecureString" where
  "a_only = secure (shift_Encryptor 4) 1 4 (Some [0x62, 1, 1, 1]) True"

section \<open>Evaluation on concrete objects\<close>

lemma upt_0_4: "[0..<4::nat] = [0, 1, 2, 3]"
  by code_simp

lemma upt_0_8: "[0..<8::nat] = [0, 1, 2, 3, 4, 5, 6, 7]"
  by code_simp

lemma replicate_2: "replicate 2 x = [x, x]"
  by (simp add: numeral_2_eq_2)

lemma replicate_4: "replicate 4 x = [x, x, x, x]"
  by (simp add: eval_nat_numeral)

lemmas ss_defs = SecureString_string_def SecureString_cstr_def SecureString_ctor_def
  strlen_def ensure_capacity_def encryptor_required_bytes_def Char_to_bytes_def bytes_to_Chars_def
  new_Char_def discard_data_def std_copy_def std_fill_def store_def protect_memory_def
  unprotect_memory_def make_ro_def is_ro_def append_ss_def insert_at_def set_at_def remove_at_def
  clear_def protected_clear_def destructor_def to_string_def length_ss_def size_ss_def
  secure_def shift_Encryptor_def noop_Encryptor_def rejecting_Encryptor_def
  sealing_Encryptor_def
  char_platform_def junk_platform_def nomem_platform_def
  EPERM_def E2BIG_def size_t_def wide_Encryptor_def wchar_platform_def EMSGSIZE_def EOPNOTSUPP_def Let_def
  upt_0_4 upt_0_8 replicate_2 replicate_4

lemma secure_fields [simp]:
  "m_num_Char (secure E n k d e) = n"
  "m_num_Char_allocated (secure E n k d e) = k"
  "m_data (secure E n k d e) = d"
  "m_ro (secure E n k d e) = False"
  "m_encrypted (secure E n k d e) = e"
  "m_encryptor (secure E n k d e) = E"
  "discarded (secure E n k d e) = []"
  by (simp_all add: secure_def)

lemma construct_hi:
  "SecureString_cstr char_platform (shift_Encryptor 4) (Some [0x68, 0x69]) = Returns hi"
  by (simp add: ss_defs hi_def)

lemma construct_abcd:
  "SecureString_cstr char_platform (shift_Encryptor 4) (Some [0x61, 0x62, 0x63, 0x64])
     = Returns abcd"
  by (simp add: ss_defs abcd_def)

section \<open>The protect and unprotect steps\<close>

lemma protect_memory_at_rest:
  "encrypted_at_rest (snd (protect_memory P s)) \<longleftrightarrow> fst (protect_memory P s) = 0"
  by (simp add: protect_memory_def encrypted_at_rest_def split_beta split: option.split)

lemma protect_memory_zero: "protect_memory P s = (0, s') \<Longrightarrow> encrypted_at_rest s'"
  using protect_memory_at_rest[of P s] by simp

lemma unprotect_memory_fails:
  "fst (unprotect_memory P s) \<noteq> 0 \<Longrightarrow> encrypted_at_rest (snd (unprotect_memory P s))"
  by (cases "m_data s"; cases "m_encrypted s")
     (simp_all add: unprotect_memory_def encrypted_at_rest_def split_beta)

lemma unprotect_memory_fields:
  "m_num_Char (snd (unprotect_memory P s)) = m_num_Char s"
  "m_num_Char_allocated (snd (unprotect_memory P s)) = m_num_Char_allocated s"
  "m_ro (snd (unprotect_memory P s)) = m_ro s"
  "m_encryptor (snd (unprotect_memory P s)) = m_encryptor s"
  "discarded (snd (unprotect_memory P s)) = discarded s"
  by (simp_all add: unprotect_memory_def split_beta split: option.split)

lemma unprotect_memory_plain:
  "fst (unprotect_memory P s) = 0 \<Longrightarrow> m_data (snd (unprotect_memory P s)) = Some d
     \<Longrightarrow> \<not> m_encrypted (snd (unprotect_memory P s))"
  by (cases "m_data s"; cases "m_encrypted s")
     (simp_all add: unprotect_memory_def split_beta)

text \<open>
  What the next operation finds after a successful protect step, when \<open>decrypt\<close> inverts
  \<open>encrypt\<close>: the array that was protected.
\<close>

lemma protect_then_plain:
  assumes inv: "inverts (m_encryptor t)" and plain: "\<not> m_encrypted t"
    and d: "m_data t = Some d" and p: "protect_memory P t = (0, t')"
  shows "plain_data P t' = d" and "m_num_Char t' = m_num_Char t"
proof -
  obtain r c where enc:
    "encrypt (m_encryptor t) d (Char_to_bytes P (m_num_Char_allocated t))
       ACCESSIBLE_SAME_PROCESS = (r, c)"
    by (cases "encrypt (m_encryptor t) d (Char_to_bytes P (m_num_Char_allocated t))
       ACCESSIBLE_SAME_PROCESS")
  from p plain d enc have r: "r = 0" and t': "t' = t\<lparr>m_data := Some c, m_encrypted := True\<rparr>"
    by (auto simp add: protect_memory_def)
  from inv enc r have
    "decrypt (m_encryptor t) c (Char_to_bytes P (m_num_Char_allocated t))
       ACCESSIBLE_SAME_PROCESS = (0, d)"
    unfolding inverts_def by blast
  then show "plain_data P t' = d"
    by (simp add: plain_data_def unprotect_memory_def t')
  show "m_num_Char t' = m_num_Char t" by (simp add: t')
qed

section \<open>The loops\<close>

lemma shift_left_keeps:
  "shift_left i n d = Some d' \<Longrightarrow> 0 < i \<Longrightarrow> length d' = length d \<and> drop n d' = drop n d"
proof (induction i n d rule: shift_left.induct)
  case (1 i n d)
  show ?case
  proof (cases "i < n")
    case True
    with "1.prems" have len: "i < length d"
      and rec: "shift_left (i + 1) n (d[i - 1 := d ! i]) = Some d'"
      by (simp_all add: shift_left.simps[of i n d] split: if_splits)
    from "1.IH"[OF True len rec] have
      "length d' = length (d[i - 1 := d ! i]) \<and> drop n d' = drop n (d[i - 1 := d ! i])"
      by simp
    moreover have "i - 1 < n" using True by simp
    ultimately show ?thesis by (simp add: drop_update_cancel)
  next
    case False
    with "1.prems" show ?thesis by (simp add: shift_left.simps[of i n d])
  qed
qed

section \<open>Arithmetic of the capacity\<close>

lemma round_up:
  fixes a bs :: nat
  assumes "0 < bs"
  shows "a \<le> ((a + bs - 1) div bs) * bs"
proof -
  have "a + bs - 1 = ((a + bs - 1) div bs) * bs + (a + bs - 1) mod bs" by simp
  moreover have "(a + bs - 1) mod bs < bs" using assms by simp
  ultimately show ?thesis using assms by linarith
qed

section \<open>C strings\<close>

lemma takeWhile_no_zero: "0 \<notin> set str \<Longrightarrow> takeWhile (\<lambda>c. c \<noteq> 0) (str @ 0 # r) = str"
  by (induction str) auto

lemma takeWhile_terminator: "takeWhile (\<lambda>c. c \<noteq> 0) (xs @ [0]) = takeWhile (\<lambda>c. c \<noteq> 0) xs"
  by (induction xs) auto

lemma strlen_no_zero: "0 \<notin> set str \<Longrightarrow> strlen str = length str"
  unfolding strlen_def by (induction str) auto

lemma takeWhile_stops:
  assumes "p < length xs" and "xs ! p = 0"
  shows "length (takeWhile (\<lambda>c. c \<noteq> 0) xs) \<le> p"
proof (rule ccontr)
  assume "\<not> length (takeWhile (\<lambda>c. c \<noteq> 0) xs) \<le> p"
  then have lt: "p < length (takeWhile (\<lambda>c. c \<noteq> 0) xs)" by simp
  then have "takeWhile (\<lambda>c. c \<noteq> 0) xs ! p = xs ! p" by (rule takeWhile_nth)
  moreover have "takeWhile (\<lambda>c. c \<noteq> 0) xs ! p \<in> set (takeWhile (\<lambda>c. c \<noteq> 0) xs)"
    using lt by simp
  ultimately have "xs ! p \<noteq> 0" by (auto dest: set_takeWhileD)
  with assms show False by simp
qed

section \<open>The encrypted flag after each operation\<close>

lemma append_at_rest: "append_ss P s ch = Returns (0, s') \<Longrightarrow> encrypted_at_rest s'"
  by (auto simp add: append_ss_def EPERM_def split_beta
      split: if_splits option.splits outcome.splits dest: protect_memory_zero)

lemma insert_at_rest: "insert_at P s offset ch = Returns (0, s') \<Longrightarrow> encrypted_at_rest s'"
  by (auto simp add: insert_at_def EPERM_def E2BIG_def split_beta
      split: if_splits option.splits outcome.splits dest: protect_memory_zero)

lemma set_at_rest: "set_at P s offset ch = Returns (0, s') \<Longrightarrow> encrypted_at_rest s'"
  by (auto simp add: set_at_def EPERM_def E2BIG_def split_beta
      split: if_splits option.splits outcome.splits dest: protect_memory_zero)

lemma remove_at_rest: "remove_at P s offset = Returns (0, s') \<Longrightarrow> encrypted_at_rest s'"
  by (auto simp add: remove_at_def EPERM_def E2BIG_def split_beta
      split: if_splits option.splits outcome.splits dest: protect_memory_zero)

lemma clear_at_rest: "clear s = Returns (0, s') \<Longrightarrow> encrypted_at_rest s'"
  by (auto simp add: clear_def protected_clear_def discard_data_def encrypted_at_rest_def
      EPERM_def split: if_splits option.splits outcome.splits)

lemma ctor_at_rest: "SecureString_ctor E = Returns s \<Longrightarrow> encrypted_at_rest s"
  by (auto simp add: SecureString_ctor_def encrypted_at_rest_def split: if_splits)

lemma cstr_at_rest: "SecureString_cstr P E str = Returns s \<Longrightarrow> encrypted_at_rest s"
  by (auto simp add: SecureString_cstr_def Let_def split_beta protect_memory_at_rest
      split: if_splits option.splits outcome.splits sum.splits)

lemma to_string_at_rest:
  "to_string P s = Returns (r, s') \<Longrightarrow>
     encrypted_at_rest s' \<longleftrightarrow>
       (fst (unprotect_memory P s) \<noteq> 0
        \<or> fst (protect_memory P (snd (unprotect_memory P s))) = 0)"
  using unprotect_memory_fails[of P s] protect_memory_at_rest[of P "snd (unprotect_memory P s)"]
  by (auto simp add: to_string_def Let_def split_beta split: if_splits option.splits outcome.splits)

section \<open>The steps of a successful edit\<close>

lemma set_at_steps:
  assumes "set_at P s offset ch = Returns (0, s')"
  shows "\<exists>d. offset < m_num_Char s \<and> fst (unprotect_memory P s) = 0
           \<and> m_data (snd (unprotect_memory P s)) = Some d \<and> offset < length d
           \<and> protect_memory P ((snd (unprotect_memory P s))\<lparr>m_data := Some (d[offset := ch])\<rparr>)
               = (0, s')"
  using assms
  by (auto simp add: set_at_def store_def EPERM_def E2BIG_def split_beta
      split: if_splits option.splits outcome.splits)

lemma remove_at_steps:
  assumes "remove_at P s offset = Returns (0, s')"
  shows "\<exists>d d1. offset < m_num_Char s \<and> fst (unprotect_memory P s) = 0
           \<and> m_data (snd (unprotect_memory P s)) = Some d
           \<and> shift_left (offset + 1) (m_num_Char s) d = Some d1
           \<and> m_num_Char s - 1 < length d1
           \<and> protect_memory P
                ((snd (unprotect_memory P s))
                   \<lparr>m_num_Char := m_num_Char s - 1,
                    m_data := Some (d1[m_num_Char s - 1 := 0])\<rparr>) = (0, s')"
  using assms
  by (auto simp add: remove_at_def store_def EPERM_def E2BIG_def split_beta
      unprotect_memory_fields split: if_splits option.splits outcome.splits)

lemma protect_memory_fields:
  "m_num_Char (snd (protect_memory P s)) = m_num_Char s"
  "m_num_Char_allocated (snd (protect_memory P s)) = m_num_Char_allocated s"
  "m_ro (snd (protect_memory P s)) = m_ro s"
  "m_encryptor (snd (protect_memory P s)) = m_encryptor s"
  "discarded (snd (protect_memory P s)) = discarded s"
  by (simp_all add: protect_memory_def split_beta split: option.split)

section \<open>The test doubles conform\<close>

lemma shift_Encryptor_inverts: "inverts (shift_Encryptor bs)"
  by (auto simp add: inverts_def shift_Encryptor_def EMSGSIZE_def o_def split: if_splits)

lemma shift_Encryptor_conforming: "0 < bs \<Longrightarrow> conforming (shift_Encryptor bs)"
  using shift_Encryptor_inverts[of bs]
  by (simp add: conforming_def accepts_aligned_def shift_Encryptor_def)

lemma char_platform_ok: "platform_ok char_platform (shift_Encryptor bs)"
  by (simp add: platform_ok_def char_platform_def)

lemma append_steps:
  assumes "append_ss P s ch = Returns (0, s')"
  shows "\<exists>s2 d. fst (unprotect_memory P s) = 0
           \<and> ensure_capacity P (snd (unprotect_memory P s)) (m_num_Char s + 1) = Returns (0, s2)
           \<and> m_data s2 = Some d \<and> m_num_Char s2 < length d
           \<and> protect_memory P
                (s2\<lparr>m_data := Some (d[m_num_Char s2 := ch]),
                    m_num_Char := m_num_Char s2 + 1\<rparr>) = (0, s')"
  using assms
  by (auto simp add: append_ss_def store_def EPERM_def split_beta
      unprotect_memory_fields split: if_splits option.splits outcome.splits)

section \<open>The two ways out of \<open>to_string\<close>\<close>

lemma to_string_unprotect_failure:
  "fst (unprotect_memory P s) \<noteq> 0 \<Longrightarrow> to_string P s = Returns ([], snd (unprotect_memory P s))"
  by (simp add: to_string_def split_beta)

lemma to_string_success_path:
  assumes un: "fst (unprotect_memory P s) = 0"
    and d: "m_data (snd (unprotect_memory P s)) = Some d"
    and len: "m_num_Char s \<le> length d" and new: "new_succeeds P (m_num_Char s + 1)"
  shows "to_string P s
           = Returns (takeWhile (\<lambda>c. c \<noteq> 0) (take (m_num_Char s) d),
                   snd (protect_memory P (snd (unprotect_memory P s))))"
proof -
  let ?n = "m_num_Char s"
  have cp: "std_copy d ?n (map (new_contents P) [0..<?n + 1])
      = Some (take ?n d @ [new_contents P ?n])"
    using len by (simp add: std_copy_def)
  have st: "store (take ?n d @ [new_contents P ?n]) ?n 0 = Some (take ?n d @ [0])"
    using len by (simp add: store_def list_update_append)
  show ?thesis
    using un new cp st
    by (simp add: to_string_def split_beta d unprotect_memory_fields protect_memory_fields
        new_Char_def Let_def takeWhile_terminator)
qed

lemma insert_at_beyond_end:
  "\<not> m_ro s \<Longrightarrow> m_num_Char s < offset \<Longrightarrow> insert_at P s offset ch = Returns (E2BIG, s)"
  by (simp add: insert_at_def)

lemma make_ro_clears_flag: "is_ro (make_ro s) = False"
  by (simp add: make_ro_def is_ro_def)

lemma to_string_no_memory:
  "fst (unprotect_memory P s) = 0 \<Longrightarrow> \<not> new_succeeds P (m_num_Char s + 1)
     \<Longrightarrow> to_string P s = Terminates"
  by (simp add: to_string_def split_beta new_Char_def unprotect_memory_fields)

lemma ensure_capacity_code: "ensure_capacity P s n = Returns (e, s') \<Longrightarrow> e = 0"
  by (auto simp add: ensure_capacity_def Let_def split: if_splits option.splits)

lemma insert_at_steps:
  assumes "insert_at P s offset ch = Returns (0, s')"
  shows "\<exists>s2 d d1. offset < m_num_Char s \<and> fst (unprotect_memory P s) = 0
           \<and> ensure_capacity P (snd (unprotect_memory P s)) (m_num_Char s + 1)
               = Returns (0, s2)
           \<and> m_data s2 = Some d \<and> shift_right (m_num_Char s2) offset d = Some d1
           \<and> offset < length d1
           \<and> protect_memory P (s2\<lparr>m_data := Some (d1[offset := ch])\<rparr>) = (0, s')"
proof -
  from assms obtain e s2 d d1 where off: "offset < m_num_Char s"
    and un: "fst (unprotect_memory P s) = 0"
    and cap: "ensure_capacity P (snd (unprotect_memory P s)) (m_num_Char s + 1)
                = Returns (e, s2)"
    and rest: "m_data s2 = Some d" "shift_right (m_num_Char s2) offset d = Some d1"
      "offset < length d1"
      "protect_memory P (s2\<lparr>m_data := Some (d1[offset := ch])\<rparr>) = (0, s')"
    by (auto simp add: insert_at_def store_def EPERM_def E2BIG_def split_beta
        unprotect_memory_fields split: if_splits option.splits outcome.splits)
  from cap have "e = 0" by (rule ensure_capacity_code)
  with off un cap rest show ?thesis by blast
qed

section \<open>The claims\<close>

text \<open>
  C1 (the code departs from the claim).  The claim: after \<open>make_ro()\<close> the read-only flag is
  true and every later mutating call returns the read-only error and leaves \<open>length()\<close>
  unchanged.  \<open>make_ro\<close> assigns \<open>false\<close> to \<open>m_ro\<close>: on the object built from \<open>"hi"\<close>,
  \<open>is_ro\<close> is false after \<open>make_ro\<close>, and \<open>append('!')\<close> returns 0 and the length goes from
  2 to 3.
\<close>

theorem make_ro_leaves_writable:
  "SecureString_cstr char_platform (shift_Encryptor 4) (Some [0x68, 0x69]) = Returns hi
   \<and> is_ro (make_ro hi) = False
   \<and> append_ss char_platform (make_ro hi) 0x21 = Returns (0, hi_appended)
   \<and> length_ss (make_ro hi) = 2 \<and> length_ss hi_appended = 3"
  by (simp add: ss_defs hi_def hi_appended_def)

text \<open>
  C2 (the code departs from the claim).  The claim: whenever the backing array is discarded,
  every unit of it up to the allocated length is zero before it is released.
  \<open>discard_data\<close> fills the first \<open>m_num_Char\<close> units only: \<open>clear()\<close> and the destructor on
  the object built from \<open>"hi"\<close> (4 units allocated) release the array as \<open>[0, 0, 1, 1]\<close>.
\<close>

theorem clear_releases_unzeroed_padding:
  "clear hi = Returns (0, hi_cleared) \<and> destructor hi = Returns hi_cleared
   \<and> discarded hi_cleared = [[0, 0, 1, 1]]"
  by (simp add: ss_defs hi_def hi_cleared_def)

text \<open>
  C4 (the code departs from the claim).  The claim: \<open>insert_at(offset, ch)\<close> with \<open>offset\<close>
  equal to \<open>length()\<close> succeeds and appends.  The guard of \<open>insert_at\<close> is
  \<open>offset >= m_num_Char\<close>: on the writable object built from \<open>"hi"\<close>, \<open>insert_at(2, '!')\<close>
  returns \<open>E2BIG\<close> and changes nothing.
\<close>

theorem insert_at_end_is_refused:
  "length_ss hi = 2 \<and> is_ro hi = False \<and> insert_at char_platform hi 2 0x21 = Returns (E2BIG, hi)"
  by (simp add: ss_defs hi_def)

text \<open>
  C5 (the code departs from the claim).  The claim: after successful edits \<open>length()\<close> and
  \<open>to_string()\<close> agree with the same edits on a plain sequence, and a successful \<open>insert_at\<close>
  increases the length by one.  \<open>insert_at\<close> shifts and stores but never increments
  \<open>m_num_Char\<close>: on \<open>"hi"\<close>, \<open>insert_at(0, '!')\<close> returns 0, the length stays 2 and
  \<open>to_string()\<close> is \<open>"!h"\<close>, where the plain sequence is \<open>"!hi"\<close>.
\<close>

theorem insert_at_keeps_length:
  "insert_at char_platform hi 0 0x21 = Returns (0, hi_inserted)
   \<and> length_ss hi = 2 \<and> length_ss hi_inserted = 2
   \<and> to_string char_platform hi = Returns ([0x68, 0x69], hi)
   \<and> to_string char_platform hi_inserted = Returns ([0x21, 0x68], hi_inserted)
   \<and> plain_insert_at 0 0x21 [0x68, 0x69 :: 8 word] = [0x21, 0x68, 0x69]"
  by (simp add: ss_defs hi_def hi_inserted_def shift_right.simps plain_insert_at_def)

text \<open>
  C7 (the code departs from the claim).  The claim: construction from an empty initial
  plaintext fails with the initialization error.  The constructor throws
  \<open>SecureStringInitializationException\<close> for the null pointer only: from \<open>""\<close> it returns
  an object of length 0 with one block allocated.
\<close>

theorem empty_string_is_accepted:
  "SecureString_cstr char_platform (shift_Encryptor 4) (Some []) = Returns empty_constructed
   \<and> SecureString_string char_platform (shift_Encryptor 4) [] = Returns empty_constructed
   \<and> length_ss empty_constructed = 0
   \<and> SecureString_cstr char_platform (shift_Encryptor 4) None
        = Throws SecureStringInitializationException ()"
  by (simp add: ss_defs empty_constructed_def)

section \<open>Construction and extraction\<close>

text \<open>
  The object the constructor builds from a non-empty C string without zero units, under a
  conforming capability and sizes that do not wrap around: one array of whole blocks, holding
  the ciphertext of the string followed by what the allocator left in the rest of the array.
\<close>

lemma construct_state:
  assumes E: "conforming E" and P: "platform_ok P E"
    and fits: "fits_size_t P E (length str)"
    and str: "0 \<notin> set str" "str \<noteq> []"
  defines "required \<equiv>
    ((length str * sizeof_Char P + block_size E - 1) div block_size E) * block_size E"
  defines "k \<equiv> required div sizeof_Char P"
  defines "plain \<equiv> str @ drop (length str) (map (new_contents P) [0..<k])"
  shows "\<exists>c. encrypt E plain (Char_to_bytes P k) ACCESSIBLE_SAME_PROCESS = (0, c) \<and>
             decrypt E c (Char_to_bytes P k) ACCESSIBLE_SAME_PROCESS = (0, plain) \<and>
             SecureString_cstr P E (Some str) = Returns (secure E (length str) k (Some c) True)"
proof -
  let ?n = "length str" and ?sz = "sizeof_Char P" and ?bs = "block_size E"
  let ?N = "2 ^ size_t_bits P :: nat"
  have bs: "0 < ?bs" and sup: "encryption_supported E" using E by (simp_all add: conforming_def)
  have sz: "0 < ?sz" and dv: "?sz dvd ?bs" and new: "\<And>n. new_succeeds P n"
    using P by (simp_all add: platform_ok_def)
  have n: "0 < ?n" using str by simp
  have nsz: "0 < ?n * ?sz" using n sz by simp
  have fit: "?n * ?sz + ?bs \<le> ?N" using fits by (simp add: fits_size_t_def)
  have "?bs < ?N" using fit nsz by linarith
  then have bsN: "size_t P ?bs = ?bs" by (simp add: size_t_def)
  have "?n * ?sz < ?N" using fit bs by linarith
  then have cb: "Char_to_bytes P ?n = ?n * ?sz"
    by (simp add: Char_to_bytes_def size_t_def)
  have lt: "?n * ?sz + ?bs - 1 < ?N" using fit bs by linarith
  then have sum: "size_t P (?n * ?sz + ?bs - 1) = ?n * ?sz + ?bs - 1"
    by (simp add: size_t_def)
  have le: "required \<le> ?n * ?sz + ?bs - 1"
    unfolding required_def by simp
  with lt have "required < ?N" by linarith
  then have reqN: "size_t P required = required"
    by (simp add: size_t_def)
  have ge: "?n * ?sz \<le> required"
    unfolding required_def by (rule round_up[OF bs])
  with nsz have pos: "0 < required" by linarith
  have "?sz dvd required" unfolding required_def using dv by simp
  then have ksz: "k * ?sz = required" unfolding k_def by simp
  have kn: "?n \<le> k" using ge ksz sz by (metis mult_le_cancel2)
  have cbk: "Char_to_bytes P k = required"
    by (simp add: Char_to_bytes_def ksz reqN)
  have al: "Char_to_bytes P k mod ?bs = 0" unfolding cbk required_def by simp
  obtain r c where enc: "encrypt E plain (Char_to_bytes P k) ACCESSIBLE_SAME_PROCESS = (r, c)"
    by (cases "encrypt E plain (Char_to_bytes P k) ACCESSIBLE_SAME_PROCESS")
  have "r = 0" using E al enc unfolding conforming_def accepts_aligned_def by (metis fst_conv)
  with enc have enc0: "encrypt E plain (Char_to_bytes P k) ACCESSIBLE_SAME_PROCESS = (0, c)"
    by simp
  have dec: "decrypt E c (Char_to_bytes P k) ACCESSIBLE_SAME_PROCESS = (0, plain)"
    using E enc0 unfolding conforming_def inverts_def by blast
  have inner: "size_t P
      ((size_t P (Char_to_bytes P ?n + ?bs - 1) div ?bs) * ?bs) = required"
    unfolding cb sum using reqN by (simp add: required_def)
  have req: "encryptor_required_bytes P (secure E ?n 0 None False) ?n = Some required"
    unfolding encryptor_required_bytes_def Let_def secure_fields bsN
    using n bs inner by simp
  have ex: "Char_to_bytes P 0 = 0" by (simp add: Char_to_bytes_def size_t_def)
  have cap: "ensure_capacity P (secure E ?n 0 None False) ?n
     = Returns (0, secure E ?n k (Some (map (new_contents P) [0..<k])) False)"
    using pos new unfolding secure_def
    by (simp add: ensure_capacity_def req[unfolded secure_def] ex new_Char_def
        discard_data_def bytes_to_Chars_def k_def)
  have cp: "std_copy str ?n (map (new_contents P) [0..<k]) = Some plain"
    using kn by (simp add: std_copy_def plain_def)
  have "SecureString_cstr P E (Some str) = Returns (secure E ?n k (Some c) True)"
    using sup unfolding secure_def
    by (simp add: SecureString_cstr_def SecureString_ctor_def strlen_no_zero[OF str(1)]
        cap[unfolded secure_def] cp protect_memory_def enc0)
  with enc0 dec show ?thesis by blast
qed

lemma wide_Encryptor_conforming: "0 < bs \<Longrightarrow> conforming (wide_Encryptor bs)"
  by (auto simp add: conforming_def accepts_aligned_def inverts_def wide_Encryptor_def
      EMSGSIZE_def o_def split: if_splits)

lemma construction_evaluations:
  "SecureString_string char_platform (shift_Encryptor 4) [0x61, 0, 0x62, 0x63] = Returns a_only"
  "to_string char_platform a_only = Returns ([0x61], a_only)"
  "SecureString_cstr wchar_platform (wide_Encryptor 6) (Some [0x68])
     = Throws (SecureStringEncryptionException EMSGSIZE) ()"
  "SecureString_cstr char_platform (shift_Encryptor 18446744073709551615) (Some [0x68, 0x69])
     = Undefined"
  "SecureString_cstr nomem_platform (shift_Encryptor 4) (Some [0x68, 0x69])
     = Throws std_bad_alloc ()"
  by (simp_all add: ss_defs a_only_def)

text \<open>
  C6, as the code has it.  For every non-empty initial plaintext without a zero unit, every
  conforming capability whose block size is a multiple of the character size, sizes within
  \<open>size_t\<close> (the bytes of the plaintext and one block together do not exceed
  \<open>SIZE_MAX + 1\<close>) and an allocator that does not fail: both constructors return an object,
  its \<open>length()\<close> is the number of units of the plaintext, and \<open>to_string()\<close> returns the
  plaintext.
\<close>

theorem construct_then_extract:
  assumes E: "conforming E" and P: "platform_ok P E"
    and fits: "fits_size_t P E (length str)"
    and str: "str \<noteq> []" "0 \<notin> set str"
  shows "\<exists>s s'. SecureString_cstr P E (Some str) = Returns s
             \<and> SecureString_string P E str = Returns s
             \<and> length_ss s = length str
             \<and> to_string P s = Returns (str, s')"
proof -
  define k where "k =
    (((length str * sizeof_Char P + block_size E - 1) div block_size E) * block_size E)
      div sizeof_Char P"
  define plain where "plain = str @ drop (length str) (map (new_contents P) [0..<k])"
  obtain c where dec: "decrypt E c (Char_to_bytes P k) ACCESSIBLE_SAME_PROCESS = (0, plain)"
    and con: "SecureString_cstr P E (Some str)
                = Returns (secure E (length str) k (Some c) True)"
    using construct_state[OF E P fits str(2) str(1)] unfolding k_def plain_def by blast
  let ?s = "secure E (length str) k (Some c) True"
  have new: "\<And>n. new_succeeds P n"
    using P by (simp add: platform_ok_def)
  have un: "unprotect_memory P ?s = (0, secure E (length str) k (Some plain) False)"
    by (simp add: unprotect_memory_def secure_def dec)
  have cp: "std_copy plain (length str) (map (new_contents P) [0..<length str + 1])
      = Some (str @ [new_contents P (length str)])"
    by (simp add: std_copy_def plain_def)
  have n2: "m_num_Char (snd (protect_memory P (secure E (length str) k (Some plain) False)))
      = length str"
    by (simp add: protect_memory_fields secure_def)
  have "\<exists>s'. to_string P ?s = Returns (str, s')"
    using new cp
    by (simp add: to_string_def un new_Char_def store_def Let_def n2
        takeWhile_no_zero[OF str(2)])
  with con show ?thesis by (auto simp add: length_ss_def SecureString_string_def)
qed

theorem construct_then_extract_witness:
  "conforming (shift_Encryptor 4) \<and> platform_ok char_platform (shift_Encryptor 4)
   \<and> fits_size_t char_platform (shift_Encryptor 4) (length [0x68, 0x69 :: 8 word])
   \<and> [0x68, 0x69] \<noteq> ([] :: 8 word list) \<and> 0 \<notin> set [0x68, 0x69 :: 8 word]
   \<and> SecureString_cstr char_platform (shift_Encryptor 4) (Some [0x68, 0x69]) = Returns hi
   \<and> SecureString_string char_platform (shift_Encryptor 4) [0x68, 0x69] = Returns hi
   \<and> length_ss hi = 2
   \<and> to_string char_platform hi = Returns ([0x68, 0x69], hi)"
proof -
  have c: "conforming (shift_Encryptor 4)" by (simp add: shift_Encryptor_conforming)
  have p: "platform_ok char_platform (shift_Encryptor 4)" by (rule char_platform_ok)
  have f: "fits_size_t char_platform (shift_Encryptor 4) (length [0x68, 0x69 :: 8 word])"
    by (simp add: fits_size_t_def char_platform_def shift_Encryptor_def)
  have ne: "[0x68, 0x69] \<noteq> ([] :: 8 word list)" by simp
  have nz: "0 \<notin> set [0x68, 0x69 :: 8 word]" by simp
  have ts: "to_string char_platform hi = Returns ([0x68, 0x69], hi)"
    by (simp add: ss_defs hi_def)
  from construct_then_extract[OF c p f ne nz] construct_hi ts
  have "SecureString_string char_platform (shift_Encryptor 4) [0x68, 0x69] = Returns hi
      \<and> length_ss hi = 2"
    by auto
  with c p f nz construct_hi ts show ?thesis by simp
qed

text \<open>
  C6 as stated fails, in four ways.  A \<open>std::string\<close> that holds a zero unit is cut at it:
  from the four units \<open>'a', 0, 'b', 'c'\<close> the object has length 1 and \<open>to_string()\<close> is
  \<open>"a"\<close>.  With \<open>wchar_t\<close> of 4 bytes and a conforming capability of block size 6, the
  array for \<open>L"h"\<close> has one unit, 4 bytes are not whole blocks and the constructor throws
  the encryption exception.  With a conforming capability of block size \<open>SIZE_MAX\<close> the
  required size wraps around to 0, nothing is allocated and the constructor copies into the
  null array.  And when the allocation fails the constructor throws \<open>std::bad_alloc\<close>.
\<close>

theorem construction_fails_or_truncates:
  "conforming (shift_Encryptor 4)
   \<and> [0x61, 0, 0x62, 0x63] \<noteq> ([] :: 8 word list)
   \<and> SecureString_string char_platform (shift_Encryptor 4) [0x61, 0, 0x62, 0x63]
       = Returns a_only
   \<and> length_ss a_only = 1 \<and> length [0x61, 0, 0x62, 0x63 :: 8 word] = 4
   \<and> to_string char_platform a_only = Returns ([0x61], a_only)
   \<and> conforming (wide_Encryptor 6)
   \<and> SecureString_cstr wchar_platform (wide_Encryptor 6) (Some [0x68])
       = Throws (SecureStringEncryptionException EMSGSIZE) ()
   \<and> conforming (shift_Encryptor 18446744073709551615)
   \<and> size_t char_platform (18446744073709551615 + 1) = 0
   \<and> SecureString_cstr char_platform (shift_Encryptor 18446744073709551615)
         (Some [0x68, 0x69]) = Undefined
   \<and> SecureString_cstr nomem_platform (shift_Encryptor 4) (Some [0x68, 0x69])
       = Throws std_bad_alloc ()"
  using construction_evaluations
  by (simp add: shift_Encryptor_conforming wide_Encryptor_conforming length_ss_def a_only_def
      size_t_def char_platform_def)

section \<open>Extraction of a sequence that holds a zero unit\<close>

lemma store_zero_evaluations:
  "set_at char_platform hi 1 0 = Returns (0, h_zero)"
  "unprotect_memory char_platform h_zero = (0, h_zero_plain)"
  "to_string char_platform h_zero = Returns ([0x68], h_zero)"
  "append_ss char_platform hi 0
     = Returns (0, secure (shift_Encryptor 4) 3 4 (Some [0x69, 0x6A, 1, 1]) True)"
  "insert_at char_platform hi 0 0
     = Returns (0, secure (shift_Encryptor 4) 2 4 (Some [1, 0x69, 0x6A, 1]) True)"
  by (simp_all add: ss_defs hi_def h_zero_def h_zero_plain_def shift_right.simps)

text \<open>
  C10.  When the stored sequence (the array after the unprotect step) holds the zero unit at a
  position \<open>p\<close> below the logical length, \<open>to_string()\<close> returns the units of the stored
  sequence before its first zero unit, which are at most \<open>p\<close> and so fewer than the logical
  length.
\<close>

theorem to_string_stops_at_zero:
  assumes un: "unprotect_memory P s = (0, s1)" and d: "m_data s1 = Some d"
    and len: "m_num_Char s \<le> length d" and new: "new_succeeds P (m_num_Char s + 1)"
    and p: "p < m_num_Char s" and z: "d ! p = 0"
  shows "to_string P s
           = Returns (takeWhile (\<lambda>c. c \<noteq> 0) (take (m_num_Char s) d),
                      snd (protect_memory P s1))
         \<and> length (takeWhile (\<lambda>c. c \<noteq> 0) (take (m_num_Char s) d)) \<le> p
         \<and> length (takeWhile (\<lambda>c. c \<noteq> 0) (take (m_num_Char s) d)) < length_ss s"
proof -
  let ?n = "m_num_Char s"
  have n1: "m_num_Char s1 = ?n"
    using unprotect_memory_fields(1)[of P s] un by simp
  have n2: "m_num_Char (snd (protect_memory P s1)) = ?n"
    by (simp add: protect_memory_fields n1)
  have cp: "std_copy d ?n (map (new_contents P) [0..<?n + 1])
      = Some (take ?n d @ [new_contents P ?n])"
    using len by (simp add: std_copy_def)
  have st: "store (take ?n d @ [new_contents P ?n]) ?n 0 = Some (take ?n d @ [0])"
    using len by (simp add: store_def list_update_append)
  have "to_string P s
      = Returns (takeWhile (\<lambda>c. c \<noteq> 0) (take ?n d @ [0]), snd (protect_memory P s1))"
    using new cp st by (simp add: to_string_def un d n1 n2 new_Char_def Let_def)
  then have a: "to_string P s
      = Returns (takeWhile (\<lambda>c. c \<noteq> 0) (take ?n d), snd (protect_memory P s1))"
    by (simp add: takeWhile_terminator)
  have "p < length (take ?n d)" and "take ?n d ! p = 0" using p len z by simp_all
  then have b: "length (takeWhile (\<lambda>c. c \<noteq> 0) (take ?n d)) \<le> p"
    by (rule takeWhile_stops)
  from a b p show ?thesis by (simp add: length_ss_def)
qed

theorem to_string_stops_at_zero_witness:
  "set_at char_platform hi 1 0 = Returns (0, h_zero)
   \<and> append_ss char_platform hi 0
       = Returns (0, secure (shift_Encryptor 4) 3 4 (Some [0x69, 0x6A, 1, 1]) True)
   \<and> insert_at char_platform hi 0 0
       = Returns (0, secure (shift_Encryptor 4) 2 4 (Some [1, 0x69, 0x6A, 1]) True)
   \<and> unprotect_memory char_platform h_zero = (0, h_zero_plain)
   \<and> m_data h_zero_plain = Some [0x68, 0, 0, 0]
   \<and> m_num_Char h_zero \<le> length [0x68, 0, 0, 0 :: 8 word]
   \<and> new_succeeds char_platform (m_num_Char h_zero + 1)
   \<and> 1 < m_num_Char h_zero \<and> [0x68, 0, 0, 0 :: 8 word] ! 1 = 0
   \<and> length_ss h_zero = 2
   \<and> to_string char_platform h_zero = Returns ([0x68], h_zero)"
proof -
  have un: "unprotect_memory char_platform h_zero = (0, h_zero_plain)"
    by (rule store_zero_evaluations)
  have d: "m_data h_zero_plain = Some [0x68, 0, 0, 0]" by (simp add: h_zero_plain_def)
  have len: "m_num_Char h_zero \<le> length [0x68, 0, 0, 0 :: 8 word]" by (simp add: h_zero_def)
  have new: "new_succeeds char_platform (m_num_Char h_zero + 1)"
    by (simp add: char_platform_def)
  have p: "1 < m_num_Char h_zero" by (simp add: h_zero_def)
  have z: "[0x68, 0, 0, 0 :: 8 word] ! 1 = 0" by simp
  have n: "m_num_Char h_zero = 2" by (simp add: h_zero_def)
  have pm: "snd (protect_memory char_platform h_zero_plain) = h_zero"
    by (simp add: ss_defs h_zero_def h_zero_plain_def)
  from to_string_stops_at_zero[OF un d len new p z]
  have "to_string char_platform h_zero = Returns ([0x68], h_zero)"
    by (simp add: n pm)
  with un d len new p z n store_zero_evaluations(1,4,5) show ?thesis
    by (simp add: length_ss_def)
qed

section \<open>Ciphertext at rest\<close>

lemma at_rest_evaluations:
  "SecureString_ctor (shift_Encryptor 4) = Returns unpopulated"
  "append_ss char_platform hi 0x21 = Returns (0, hi_appended)"
  "insert_at char_platform hi 0 0x21 = Returns (0, hi_inserted)"
  "set_at char_platform hi 0 0x21 = Returns (0, hi_set)"
  "remove_at char_platform hi 0 = Returns (0, hi_removed)"
  "clear hi = Returns (0, hi_cleared)"
  "to_string char_platform hi = Returns ([0x68, 0x69], hi)"
  "fst (protect_memory char_platform (snd (unprotect_memory char_platform hi))) = 0"
  by (simp_all add: ss_defs hi_def hi_appended_def hi_inserted_def hi_set_def hi_removed_def
      hi_cleared_def unpopulated_def shift_right.simps shift_left.simps)

text \<open>
  C3, as the code has it.  An object returned by a constructor (from a capability, with or
  without initial text), and the object after \<open>append\<close>, \<open>insert_at\<close>, \<open>set_at\<close>, \<open>remove_at\<close> or
  \<open>clear\<close> has returned 0, has its encrypted flag set or its backing array null; \<open>make_ro\<close>
  changes neither.  \<open>to_string\<close> discards the result of its protect step: after it the flag is
  set or the array null exactly when its unprotect step failed or its protect step succeeded.
\<close>

theorem encrypted_after_reported_success:
  "(SecureString_ctor E = Returns s0 \<longrightarrow> encrypted_at_rest s0)
   \<and> (SecureString_cstr P E str = Returns s1 \<longrightarrow> encrypted_at_rest s1)
   \<and> (append_ss P s ch = Returns (0, s2) \<longrightarrow> encrypted_at_rest s2)
   \<and> (insert_at P s offset ch = Returns (0, s3) \<longrightarrow> encrypted_at_rest s3)
   \<and> (set_at P s offset ch = Returns (0, s4) \<longrightarrow> encrypted_at_rest s4)
   \<and> (remove_at P s offset = Returns (0, s5) \<longrightarrow> encrypted_at_rest s5)
   \<and> (clear s = Returns (0, s6) \<longrightarrow> encrypted_at_rest s6)
   \<and> encrypted_at_rest (make_ro s) = encrypted_at_rest s
   \<and> (to_string P s = Returns (r, s7) \<longrightarrow>
        (encrypted_at_rest s7 \<longleftrightarrow>
           fst (unprotect_memory P s) \<noteq> 0
           \<or> fst (protect_memory P (snd (unprotect_memory P s))) = 0))"
proof -
  have "encrypted_at_rest (make_ro s) = encrypted_at_rest s"
    by (simp add: make_ro_def encrypted_at_rest_def)
  then show ?thesis
    using ctor_at_rest[of E s0] cstr_at_rest[of P E str s1] append_at_rest[of P s ch s2]
      insert_at_rest[of P s offset ch s3] set_at_rest[of P s offset ch s4]
      remove_at_rest[of P s offset s5] clear_at_rest[of s s6] to_string_at_rest[of P s r s7]
    by blast
qed

theorem encrypted_after_reported_success_witness:
  "SecureString_ctor (shift_Encryptor 4) = Returns unpopulated \<and> encrypted_at_rest unpopulated
   \<and> SecureString_cstr char_platform (shift_Encryptor 4) (Some [0x68, 0x69]) = Returns hi
   \<and> encrypted_at_rest hi
   \<and> append_ss char_platform hi 0x21 = Returns (0, hi_appended) \<and> encrypted_at_rest hi_appended
   \<and> insert_at char_platform hi 0 0x21 = Returns (0, hi_inserted) \<and> encrypted_at_rest hi_inserted
   \<and> set_at char_platform hi 0 0x21 = Returns (0, hi_set) \<and> encrypted_at_rest hi_set
   \<and> remove_at char_platform hi 0 = Returns (0, hi_removed) \<and> encrypted_at_rest hi_removed
   \<and> clear hi = Returns (0, hi_cleared) \<and> encrypted_at_rest hi_cleared
   \<and> to_string char_platform hi = Returns ([0x68, 0x69], hi)
   \<and> fst (protect_memory char_platform (snd (unprotect_memory char_platform hi))) = 0"
  using encrypted_after_reported_success[where E = "shift_Encryptor 4" and ?s0.0 = unpopulated
      and P = char_platform and str = "Some [0x68, 0x69]" and ?s1.0 = hi and s = hi
      and ch = "0x21" and ?s2.0 = hi_appended and offset = 0 and ?s3.0 = hi_inserted
      and ?s4.0 = hi_set and ?s5.0 = hi_removed and ?s6.0 = hi_cleared
      and r = "[0x68, 0x69]" and ?s7.0 = hi]
    construct_hi at_rest_evaluations
  by simp

lemma rejected_evaluations:
  "SecureString_cstr char_platform (rejecting_Encryptor 4) (Some [0x61, 0x62]) = Returns ab"
  "set_at char_platform ab 0 0x78 = Returns (EOPNOTSUPP, xb)"
  "to_string char_platform xb = Returns ([0x78, 0x62], xb)"
  by (simp_all add: ss_defs ab_def xb_def)

text \<open>
  C3 as stated fails.  With a capability whose primitive rejects a buffer that starts with
  \<open>'x'\<close>: \<open>set_at(0, 'x')\<close> on \<open>"ab"\<close> reports the encryption error and leaves the plaintext
  \<open>"xb"\<close> in the array; \<open>to_string()\<close> then returns \<open>"xb"\<close>, reports nothing, and the object
  it leaves has a non-null array with the encrypted flag false.
\<close>

theorem to_string_leaves_plaintext_at_rest:
  "SecureString_cstr char_platform (rejecting_Encryptor 4) (Some [0x61, 0x62]) = Returns ab
   \<and> set_at char_platform ab 0 0x78 = Returns (EOPNOTSUPP, xb)
   \<and> to_string char_platform xb = Returns ([0x78, 0x62], xb)
   \<and> m_data xb = Some [0x78, 0x62, 0, 0] \<and> m_encrypted xb = False
   \<and> \<not> encrypted_at_rest xb"
  using rejected_evaluations by (simp add: xb_def encrypted_at_rest_def)

section \<open>The units beyond the logical length\<close>

lemma set_at_padding:
  assumes inv: "inverts (m_encryptor s)" and z: "padding_zero P s"
    and r: "set_at P s offset ch = Returns (0, s')"
  shows "padding_zero P s'"
proof -
  let ?s1 = "snd (unprotect_memory P s)"
  from set_at_steps[OF r] obtain d where off: "offset < m_num_Char s"
    and un: "fst (unprotect_memory P s) = 0" and d: "m_data ?s1 = Some d"
    and pr: "protect_memory P (?s1\<lparr>m_data := Some (d[offset := ch])\<rparr>) = (0, s')"
    by blast
  let ?t = "?s1\<lparr>m_data := Some (d[offset := ch])\<rparr>"
  from unprotect_memory_plain[OF un d] have plain: "\<not> m_encrypted ?t" by simp
  have inv': "inverts (m_encryptor ?t)" using inv by (simp add: unprotect_memory_fields)
  have dt: "m_data ?t = Some (d[offset := ch])" by simp
  from protect_then_plain[OF inv' plain dt pr]
  have pd: "plain_data P s' = d[offset := ch]" and n: "m_num_Char s' = m_num_Char s"
    by (simp_all add: unprotect_memory_fields)
  have "padding P s' = drop (m_num_Char s) d"
    using off by (simp add: padding_def pd n drop_update_cancel)
  moreover have "padding P s = drop (m_num_Char s) d"
    by (simp add: padding_def plain_data_def d)
  ultimately show ?thesis using z by (simp add: padding_zero_def)
qed

lemma remove_at_padding:
  assumes inv: "inverts (m_encryptor s)" and z: "padding_zero P s"
    and r: "remove_at P s offset = Returns (0, s')"
  shows "padding_zero P s'"
proof -
  let ?s1 = "snd (unprotect_memory P s)" and ?n = "m_num_Char s"
  from remove_at_steps[OF r] obtain d d1 where off: "offset < ?n"
    and un: "fst (unprotect_memory P s) = 0" and d: "m_data ?s1 = Some d"
    and sh: "shift_left (offset + 1) ?n d = Some d1" and len: "?n - 1 < length d1"
    and pr: "protect_memory P (?s1\<lparr>m_num_Char := ?n - 1,
                m_data := Some (d1[?n - 1 := 0])\<rparr>) = (0, s')"
    by blast
  let ?t = "?s1\<lparr>m_num_Char := ?n - 1, m_data := Some (d1[?n - 1 := 0])\<rparr>"
  from unprotect_memory_plain[OF un d] have plain: "\<not> m_encrypted ?t" by simp
  have inv': "inverts (m_encryptor ?t)" using inv by (simp add: unprotect_memory_fields)
  have dt: "m_data ?t = Some (d1[?n - 1 := 0])" by simp
  from protect_then_plain[OF inv' plain dt pr]
  have pd: "plain_data P s' = d1[?n - 1 := 0]" and n: "m_num_Char s' = ?n - 1"
    by simp_all
  from shift_left_keeps[OF sh] have keep: "drop ?n d1 = drop ?n d" by simp
  have "drop (?n - 1) (d1[?n - 1 := 0]) = 0 # drop (Suc (?n - 1)) d1"
    using len by (simp add: drop_update_swap Cons_nth_drop_Suc[symmetric] del: drop_Suc_Cons)
  then have "padding P s' = 0 # drop ?n d"
    using off keep by (simp add: padding_def pd n)
  moreover have "padding P s = drop ?n d"
    by (simp add: padding_def plain_data_def d)
  ultimately show ?thesis using z by (simp add: padding_zero_def)
qed

lemma ensure_capacity_growth:
  assumes e: "ensure_capacity P t n = Returns (0, t')"
    and req: "encryptor_required_bytes P t n = Some required"
    and grow: "Char_to_bytes P (m_num_Char_allocated t) < required"
  shows "\<exists>d'. m_data t' = Some d'
           \<and> drop (m_num_Char t) d'
               = drop (m_num_Char t) (map (new_contents P) [0..<bytes_to_Chars P required])"
  using e grow
  by (auto simp add: ensure_capacity_def req new_Char_def std_copy_def discard_data_def
      Let_def split: if_splits option.splits)

lemma append_in_place_padding:
  assumes inv: "inverts (m_encryptor s)" and z: "padding_zero P s"
    and req: "encryptor_required_bytes P s (m_num_Char s + 1) = Some required"
    and fits: "required \<le> Char_to_bytes P (m_num_Char_allocated s)"
    and r: "append_ss P s ch = Returns (0, s')"
  shows "padding_zero P s'"
proof -
  let ?s1 = "snd (unprotect_memory P s)" and ?n = "m_num_Char s"
  from append_steps[OF r] obtain s2 d where un: "fst (unprotect_memory P s) = 0"
    and cap: "ensure_capacity P ?s1 (?n + 1) = Returns (0, s2)"
    and d: "m_data s2 = Some d" and len: "m_num_Char s2 < length d"
    and pr: "protect_memory P (s2\<lparr>m_data := Some (d[m_num_Char s2 := ch]),
                m_num_Char := m_num_Char s2 + 1\<rparr>) = (0, s')"
    by blast
  have "encryptor_required_bytes P ?s1 (?n + 1) = Some required"
    using req by (simp add: encryptor_required_bytes_def unprotect_memory_fields)
  with cap fits have s2: "s2 = ?s1"
    by (simp add: ensure_capacity_def unprotect_memory_fields)
  have n2: "m_num_Char s2 = ?n" by (simp add: s2 unprotect_memory_fields)
  let ?t = "s2\<lparr>m_data := Some (d[?n := ch]), m_num_Char := ?n + 1\<rparr>"
  from unprotect_memory_plain[OF un] d s2 have plain: "\<not> m_encrypted ?t" by simp
  have inv': "inverts (m_encryptor ?t)" using inv by (simp add: s2 unprotect_memory_fields)
  have dt: "m_data ?t = Some (d[?n := ch])" by simp
  from pr have pr': "protect_memory P ?t = (0, s')" by (simp add: n2)
  from protect_then_plain[OF inv' plain dt pr']
  have pd: "plain_data P s' = d[?n := ch]" and n: "m_num_Char s' = ?n + 1"
    by simp_all
  have "padding P s' = drop (Suc ?n) d"
    by (simp add: padding_def pd n)
  moreover have "padding P s = drop ?n d"
    using d by (simp add: padding_def plain_data_def s2)
  moreover have "set (drop (Suc ?n) d) \<subseteq> set (drop ?n d)"
    by (rule set_drop_subset_set_drop) simp
  ultimately show ?thesis using z by (auto simp add: padding_zero_def list_all_iff)
qed

lemma padding_evaluations:
  "padding_zero char_platform hi"
  "padding_zero char_platform hi_removed"
  "padding_zero char_platform hi_set"
  "padding_zero char_platform hi_appended"
  "encryptor_required_bytes char_platform hi (m_num_Char hi + 1) = Some 4"
  "4 \<le> Char_to_bytes char_platform (m_num_Char_allocated hi)"
  "ensure_capacity char_platform abcd_plain 5 = Returns (0, abcd_grown)"
  "encryptor_required_bytes char_platform abcd_plain 5 = Some 8"
  "Char_to_bytes char_platform (m_num_Char_allocated abcd_plain) < 8"
  "m_data abcd_grown = Some [0x61, 0x62, 0x63, 0x64, 0, 0, 0, 0]"
  by (simp_all add: ss_defs padding_zero_def padding_def plain_data_def hi_def hi_removed_def
      hi_set_def hi_appended_def abcd_plain_def abcd_grown_def)

text \<open>
  C9, as the code has it.  With a capability whose \<open>decrypt\<close> inverts its \<open>encrypt\<close>, and
  every unit beyond the logical length zero before the call: the same holds after a
  \<open>remove_at\<close> or a \<open>set_at\<close> that returns 0, and after an \<open>append\<close> that returns 0 and fits
  the allocated array.  A new array (capacity growth, construction) is not zero-filled: beyond
  the copied logical characters it holds what the allocator left there.
\<close>

theorem padding_after_edits:
  "(inverts (m_encryptor s) \<and> padding_zero P s \<and> remove_at P s offset = Returns (0, s1)
      \<longrightarrow> padding_zero P s1)
   \<and> (inverts (m_encryptor s) \<and> padding_zero P s \<and> set_at P s offset ch = Returns (0, s2)
      \<longrightarrow> padding_zero P s2)
   \<and> (inverts (m_encryptor s) \<and> padding_zero P s
        \<and> encryptor_required_bytes P s (m_num_Char s + 1) = Some fit
        \<and> fit \<le> Char_to_bytes P (m_num_Char_allocated s)
        \<and> append_ss P s ch = Returns (0, s3)
      \<longrightarrow> padding_zero P s3)
   \<and> (ensure_capacity P t n = Returns (0, t')
        \<and> encryptor_required_bytes P t n = Some required
        \<and> Char_to_bytes P (m_num_Char_allocated t) < required
      \<longrightarrow> (\<exists>d'. m_data t' = Some d'
             \<and> drop (m_num_Char t) d'
                 = drop (m_num_Char t)
                     (map (new_contents P) [0..<bytes_to_Chars P required])))"
  using remove_at_padding[of s P offset s1] set_at_padding[of s P offset ch s2]
    append_in_place_padding[of s P fit ch s3] ensure_capacity_growth[of P t n t' required]
  by blast

theorem padding_after_edits_witness:
  "inverts (m_encryptor hi) \<and> padding_zero char_platform hi
   \<and> remove_at char_platform hi 0 = Returns (0, hi_removed)
   \<and> padding_zero char_platform hi_removed
   \<and> set_at char_platform hi 0 0x21 = Returns (0, hi_set)
   \<and> padding_zero char_platform hi_set
   \<and> encryptor_required_bytes char_platform hi (m_num_Char hi + 1) = Some 4
   \<and> 4 \<le> Char_to_bytes char_platform (m_num_Char_allocated hi)
   \<and> append_ss char_platform hi 0x21 = Returns (0, hi_appended)
   \<and> padding_zero char_platform hi_appended
   \<and> ensure_capacity char_platform abcd_plain 5 = Returns (0, abcd_grown)
   \<and> encryptor_required_bytes char_platform abcd_plain 5 = Some 8
   \<and> Char_to_bytes char_platform (m_num_Char_allocated abcd_plain) < 8
   \<and> m_data abcd_grown = Some [0x61, 0x62, 0x63, 0x64, 0, 0, 0, 0]"
proof -
  have inv: "inverts (m_encryptor hi)"
    by (simp add: hi_def shift_Encryptor_inverts)
  from padding_after_edits[where s = hi and P = char_platform and offset = 0
      and ?s1.0 = hi_removed and ch = "0x21" and ?s2.0 = hi_set and fit = 4
      and ?s3.0 = hi_appended and t = abcd_plain and n = 5 and t' = abcd_grown
      and required = 8]
    inv padding_evaluations at_rest_evaluations
  show ?thesis by simp
qed

lemma junk_evaluations:
  "SecureString_cstr junk_platform (noop_Encryptor 4) (Some [0x68, 0x69]) = Returns hi_junk"
  "padding junk_platform hi_junk = [0xAA, 0xAA]"
  by (simp_all add: ss_defs padding_def plain_data_def hi_junk_def)

text \<open>
  C9 as stated fails.  With an allocator that hands out arrays filled with \<open>0xAA\<close> and the
  capability that leaves the buffer as it is, the object built from \<open>"hi"\<close> holds
  \<open>0xAA\<close> in the two units beyond its logical length.
\<close>

theorem new_array_is_not_zero_filled:
  "SecureString_cstr junk_platform (noop_Encryptor 4) (Some [0x68, 0x69]) = Returns hi_junk
   \<and> length_ss hi_junk = 2 \<and> m_data hi_junk = Some [0x68, 0x69, 0xAA, 0xAA]
   \<and> padding junk_platform hi_junk = [0xAA, 0xAA]
   \<and> \<not> padding_zero junk_platform hi_junk"
  using junk_evaluations by (simp add: padding_zero_def length_ss_def hi_junk_def)

section \<open>Internal errors and what becomes of them\<close>

lemma swallowed_evaluations:
  "SecureString_cstr char_platform (rejecting_Encryptor 4) (Some [0x63, 0x64]) = Returns cd"
  "set_at char_platform cd 0 0x78 = Returns (EOPNOTSUPP, xd)"
  "unprotect_memory char_platform xd = (0, xd)"
  "protect_memory char_platform xd = (EOPNOTSUPP, xd)"
  "to_string char_platform xd = Returns ([0x78, 0x64], xd)"
  by (simp_all add: ss_defs cd_def xd_def)

lemma sealed_evaluations:
  "SecureString_cstr char_platform (sealing_Encryptor 4) (Some [0x68, 0x69])
     = Returns hi_sealed"
  "unprotect_memory char_platform hi_sealed = (EOPNOTSUPP, hi_sealed)"
  "to_string char_platform hi_sealed = Returns ([], hi_sealed)"
  by (simp_all add: ss_defs hi_sealed_def)

lemma extraction_evaluations:
  "unprotect_memory char_platform hi = (0, hi_plain)"
  "protect_memory char_platform hi_plain = (0, hi)"
  "ensure_capacity char_platform hi_plain (m_num_Char hi + 1) = Returns (0, hi_plain)"
  by (simp_all add: ss_defs hi_def hi_plain_def)

text \<open>
  C8, as the code has it.  \<open>to_string\<close> returns the empty string when its unprotect step
  fails.  When that step succeeds and the scratch array is allocated, it copies the first
  \<open>m_num_Char\<close> units into the scratch array, calls \<open>protect_memory\<close> on the object and
  discards the code that call returns, and returns the copied units up to their first zero
  unit.  \<open>append\<close>, \<open>insert_at\<close>, \<open>set_at\<close> and \<open>remove_at\<close> swallow nothing: when one of
  them returns 0, its unprotect step, its capacity step (\<open>append\<close>, \<open>insert_at\<close>) and its
  protect step returned 0.
\<close>

theorem internal_errors_surface:
  "(fst (unprotect_memory P s) \<noteq> 0
      \<longrightarrow> to_string P s = Returns ([], snd (unprotect_memory P s)))
   \<and> (fst (unprotect_memory P s) = 0 \<and> new_succeeds P (m_num_Char s + 1)
        \<and> m_data (snd (unprotect_memory P s)) = Some d \<and> m_num_Char s \<le> length d
      \<longrightarrow> to_string P s
            = Returns (takeWhile (\<lambda>c. c \<noteq> 0) (take (m_num_Char s) d),
                       snd (protect_memory P (snd (unprotect_memory P s)))))
   \<and> (append_ss P s ch = Returns (0, s1)
      \<longrightarrow> (\<exists>s2 d. fst (unprotect_memory P s) = 0
             \<and> ensure_capacity P (snd (unprotect_memory P s)) (m_num_Char s + 1)
                 = Returns (0, s2)
             \<and> m_data s2 = Some d \<and> m_num_Char s2 < length d
             \<and> protect_memory P
                  (s2\<lparr>m_data := Some (d[m_num_Char s2 := ch]),
                      m_num_Char := m_num_Char s2 + 1\<rparr>) = (0, s1)))
   \<and> (set_at P s offset ch = Returns (0, s3)
      \<longrightarrow> (\<exists>d. offset < m_num_Char s \<and> fst (unprotect_memory P s) = 0
             \<and> m_data (snd (unprotect_memory P s)) = Some d \<and> offset < length d
             \<and> protect_memory P
                  ((snd (unprotect_memory P s))\<lparr>m_data := Some (d[offset := ch])\<rparr>)
                 = (0, s3)))
   \<and> (remove_at P s offset = Returns (0, s4)
      \<longrightarrow> (\<exists>d d1. offset < m_num_Char s \<and> fst (unprotect_memory P s) = 0
             \<and> m_data (snd (unprotect_memory P s)) = Some d
             \<and> shift_left (offset + 1) (m_num_Char s) d = Some d1
             \<and> m_num_Char s - 1 < length d1
             \<and> protect_memory P
                  ((snd (unprotect_memory P s))
                     \<lparr>m_num_Char := m_num_Char s - 1,
                      m_data := Some (d1[m_num_Char s - 1 := 0])\<rparr>) = (0, s4)))
   \<and> (insert_at P s offset ch = Returns (0, s5)
      \<longrightarrow> (\<exists>s2 d d1. offset < m_num_Char s \<and> fst (unprotect_memory P s) = 0
             \<and> ensure_capacity P (snd (unprotect_memory P s)) (m_num_Char s + 1)
                 = Returns (0, s2)
             \<and> m_data s2 = Some d \<and> shift_right (m_num_Char s2) offset d = Some d1
             \<and> offset < length d1
             \<and> protect_memory P (s2\<lparr>m_data := Some (d1[offset := ch])\<rparr>) = (0, s5)))"
  using to_string_unprotect_failure[of P s]
    to_string_success_path[of P s d] append_steps[of P s ch s1]
    set_at_steps[of P s offset ch s3] remove_at_steps[of P s offset s4]
    insert_at_steps[of P s offset ch s5]
  by blast

theorem internal_errors_surface_witness:
  "fst (unprotect_memory char_platform hi_sealed) \<noteq> 0
   \<and> to_string char_platform hi_sealed = Returns ([], hi_sealed)
   \<and> fst (unprotect_memory char_platform hi) = 0
   \<and> new_succeeds char_platform (m_num_Char hi + 1)
   \<and> m_data (snd (unprotect_memory char_platform hi)) = Some [0x68, 0x69, 0, 0]
   \<and> m_num_Char hi \<le> length [0x68, 0x69, 0, 0 :: 8 word]
   \<and> to_string char_platform hi = Returns ([0x68, 0x69], hi)
   \<and> append_ss char_platform hi 0x21 = Returns (0, hi_appended)
   \<and> ensure_capacity char_platform hi_plain (m_num_Char hi + 1) = Returns (0, hi_plain)
   \<and> set_at char_platform hi 0 0x21 = Returns (0, hi_set)
   \<and> remove_at char_platform hi 0 = Returns (0, hi_removed)
   \<and> insert_at char_platform hi 0 0x21 = Returns (0, hi_inserted)"
proof -
  have a: "fst (unprotect_memory char_platform hi_sealed) \<noteq> 0"
    by (simp add: sealed_evaluations EOPNOTSUPP_def)
  have c: "fst (unprotect_memory char_platform hi) = 0"
    "m_data (snd (unprotect_memory char_platform hi)) = Some [0x68, 0x69, 0, 0]"
    "new_succeeds char_platform (m_num_Char hi + 1)"
    "m_num_Char hi \<le> length [0x68, 0x69, 0, 0 :: 8 word]"
    by (simp_all add: extraction_evaluations hi_plain_def)
       (simp_all add: char_platform_def hi_def)
  from internal_errors_surface[where P = char_platform and s = hi_sealed] a
  have t1: "to_string char_platform hi_sealed
      = Returns ([], snd (unprotect_memory char_platform hi_sealed))"
    by blast
  from internal_errors_surface[where P = char_platform and s = hi
      and d = "[0x68, 0x69, 0, 0]"] c
  have t3: "to_string char_platform hi
      = Returns (takeWhile (\<lambda>c. c \<noteq> 0) (take (m_num_Char hi) [0x68, 0x69, 0, 0]),
                 snd (protect_memory char_platform (snd (unprotect_memory char_platform hi))))"
    by blast
  from t1 have r1: "to_string char_platform hi_sealed = Returns ([], hi_sealed)"
    by (simp add: sealed_evaluations)
  have n: "m_num_Char hi = 2" by (simp add: hi_def)
  from t3 have r3: "to_string char_platform hi = Returns ([0x68, 0x69], hi)"
    by (simp add: extraction_evaluations n)
  from a c r1 r3 at_rest_evaluations extraction_evaluations show ?thesis
    by simp
qed

text \<open>
  C8 as stated fails.  The failed unprotect step of \<open>to_string\<close> is not the only internal
  error that is swallowed.  On the object left in plaintext \<open>"xd"\<close> by a \<open>set_at\<close> that
  reported the encryption error, the unprotect step of \<open>to_string()\<close> returns 0, its protect
  step returns \<open>EOPNOTSUPP\<close>, and \<open>to_string()\<close> returns \<open>"xd"\<close>.
\<close>

theorem errors_swallowed_elsewhere:
  "SecureString_cstr char_platform (rejecting_Encryptor 4) (Some [0x63, 0x64]) = Returns cd
   \<and> set_at char_platform cd 0 0x78 = Returns (EOPNOTSUPP, xd)
   \<and> unprotect_memory char_platform xd = (0, xd)
   \<and> protect_memory char_platform xd = (EOPNOTSUPP, xd)
   \<and> to_string char_platform xd = Returns ([0x78, 0x64], xd)"
  using swallowed_evaluations by simp

end
